theory Spec2Isabelle
  imports Main "HOL-Library.AList"
begin

section \<open>JavaScript values, objects and outcomes\<close>

text \<open>
  The decorators of \<^verbatim>\<open>index.ts\<close> wrap a handler \<^verbatim>\<open>(req, res) => result\<close> into another
  handler. They only move values around, read a few properties and call the functions they
  were given, so the model needs a small universe of JavaScript values:
  \<^item> the primitives (numbers are the integer-valued ones: status codes);
  \<^item> \<open>JArr\<close> and \<open>JObj\<close>: arrays and object literals used as plain data (a schema, an entry
    of a validator's error list, the rest-parameter array of a constructor);
  \<^item> \<open>JRef\<close>: a reference to a mutable object of the store (the framework's request and
    response, a handler's result that a validator may change in place);
  \<^item> \<open>JErr\<close>: an instance of \<^verbatim>\<open>Error\<close> or of one of its subclasses, with its class and its
    properties in the order of their creation. This library never changes an error after
    its construction, so an error instance is a value, and handing the value on is handing
    the instance on.
\<close>

type_synonym addr = nat

datatype errclass =
    ErrorClass
  | TypeErrorClass
  | BaseErrorClass
  | MethodNotAllowedErrorClass
  | BadRequestErrorClass
  | ServerInternalErrorClass

datatype jsval =
    JUndefined
  | JNull
  | JBool bool
  | JNum int
  | JStr string
  | JArr "jsval list"
  | JObj "(string \<times> jsval) list"
  | JRef addr
  | JErr errclass "(string \<times> jsval) list"

type_synonym props = "(string \<times> jsval) list"

text \<open>Reading a property that is absent gives \<^verbatim>\<open>undefined\<close>.\<close>

definition field :: "props \<Rightarrow> string \<Rightarrow> jsval" where
  "field ps k = (case map_of ps k of None \<Rightarrow> JUndefined | Some v \<Rightarrow> v)"

text \<open>The properties of an error instance (or of a data object), for stating results.\<close>

fun err_props :: "jsval \<Rightarrow> props" where
  "err_props (JErr c ps) = ps"
| "err_props (JObj ps) = ps"
| "err_props v = []"

fun class_of :: "jsval \<Rightarrow> errclass option" where
  "class_of (JErr c ps) = Some c"
| "class_of v = None"

text \<open>\<^verbatim>\<open>!v\<close> is \<open>\<not> truthy v\<close>; \<^verbatim>\<open>c ? a : b\<close> tests \<open>truthy c\<close>.\<close>

fun truthy :: "jsval \<Rightarrow> bool" where
  "truthy JUndefined = False"
| "truthy JNull = False"
| "truthy (JBool b) = b"
| "truthy (JNum n) = (n \<noteq> 0)"
| "truthy (JStr s) = (s \<noteq> [])"
| "truthy (JArr xs) = True"
| "truthy (JObj ps) = True"
| "truthy (JRef a) = True"
| "truthy (JErr c ps) = True"

text \<open>\<^verbatim>\<open>v instanceof Error\<close>: every error class of the model descends from \<^verbatim>\<open>Error\<close>.\<close>

fun instanceof_Error :: "jsval \<Rightarrow> bool" where
  "instanceof_Error (JErr c ps) = True"
| "instanceof_Error v = False"

text \<open>
  What a call, once awaited, comes to: it returns a value, it throws (or its promise
  rejects with) a value, or it never settles.
\<close>

datatype outcome = Returned jsval | Thrown jsval | Hang

text \<open>
  The world that the calls act on: the store of mutable objects; the log of the calls
  made on the collaborators (the functions given to the decorators, and the response's
  \<^verbatim>\<open>status\<close> and \<^verbatim>\<open>json\<close> methods), in the order in which they were made; and the
  framework's serializer, which says for a store and a body whether \<^verbatim>\<open>res.json(body)\<close>
  throws, and what (a body that cannot be written as JSON, such as a cyclic object).
\<close>

datatype event =
    CallHandler addr addr
  | CallErrorHandler jsval addr addr
  | CallMiddleware addr addr
  | CallExpressMiddleware addr addr
  | CallValidate jsval jsval
  | ResStatus addr jsval
  | ResJson addr jsval

record world =
  store :: "addr \<Rightarrow> props"
  trace :: "event list"
  json_refuses :: "(addr \<Rightarrow> props) \<Rightarrow> jsval \<Rightarrow> jsval option"

definition record_call :: "event \<Rightarrow> world \<Rightarrow> world" where
  "record_call ev w = w\<lparr>trace := trace w @ [ev]\<rparr>"

type_synonym handler = "addr \<Rightarrow> addr \<Rightarrow> world \<Rightarrow> outcome \<times> world"

type_synonym errfn = "jsval \<Rightarrow> addr \<Rightarrow> addr \<Rightarrow> world \<Rightarrow> outcome \<times> world"

text \<open>The call \<^verbatim>\<open>handler(req, res)\<close> of a decorator's closure, awaited.\<close>

definition call_handler :: "handler \<Rightarrow> handler" where
  "call_handler handler req res w = handler req res (record_call (CallHandler req res) w)"

section \<open>The error classes\<close>

text \<open>
  A constructor body acts on \<^verbatim>\<open>this\<close>, the properties created so far. An assignment
  \<^verbatim>\<open>this.k = v\<close> replaces the value of an existing property in place and appends a new one.
  The built-in \<^verbatim>\<open>Error(message)\<close> creates \<^verbatim>\<open>message\<close> unless the argument is \<^verbatim>\<open>undefined\<close>
  (the engine's \<^verbatim>\<open>stack\<close> property is left out). A parameter with a default takes the
  default when the argument is \<^verbatim>\<open>undefined\<close>, that is, also when it is omitted.
\<close>

definition Error_constructor :: "jsval \<Rightarrow> props \<Rightarrow> props" where
  "Error_constructor message this =
     (if message = JUndefined then this else AList.update ''message'' message this)"

definition default_param :: "jsval \<Rightarrow> jsval \<Rightarrow> jsval" where
  "default_param arg dflt = (if arg = JUndefined then dflt else arg)"

definition BaseError_constructor :: "jsval \<Rightarrow> props \<Rightarrow> props" where
  "BaseError_constructor message this =
     (let this = Error_constructor message this;
          this = AList.update ''name'' (JStr ''BaseError'') this;
          this = AList.update ''statusCode'' (JNum 500) this;
          this = AList.update ''message'' message this
      in this)"

definition MethodNotAllowedError_constructor :: "jsval \<Rightarrow> props \<Rightarrow> props" where
  "MethodNotAllowedError_constructor message0 this =
     (let message = default_param message0 (JStr ''Method not allowed'');
          this = BaseError_constructor message this;
          this = AList.update ''name'' (JStr ''MethodNotAllowedError'') this;
          this = AList.update ''message'' message this;
          this = AList.update ''statusCode'' (JNum 405) this
      in this)"

definition BadRequestError_constructor :: "jsval \<Rightarrow> jsval \<Rightarrow> props \<Rightarrow> props" where
  "BadRequestError_constructor message0 errors this =
     (let message = default_param message0 (JStr ''Bad Request'');
          this = BaseError_constructor message this;
          this = AList.update ''name'' (JStr ''BadRequestError'') this;
          this = AList.update ''message'' message this;
          this = AList.update ''errors'' errors this;
          this = AList.update ''statusCode'' (JNum 400) this
      in this)"

definition ServerInternalError_constructor :: "jsval \<Rightarrow> jsval list \<Rightarrow> props \<Rightarrow> props" where
  "ServerInternalError_constructor message0 addition this =
     (let message = default_param message0 (JStr ''Server Internal Error'');
          this = BaseError_constructor message this;
          this = AList.update ''name'' (JStr ''ServerInternalError'') this;
          this = AList.update ''message'' message this;
          this = AList.update ''addition'' (JArr addition) this;
          this = AList.update ''statusCode'' (JNum 500) this
      in this)"

text \<open>
  \<^verbatim>\<open>new C(args)\<close>. An omitted argument is \<open>JUndefined\<close>; the rest parameter of
  \<^verbatim>\<open>ServerInternalError\<close> is the list of the arguments after the message.
\<close>

definition BaseError :: "jsval \<Rightarrow> jsval" where
  "BaseError message = JErr BaseErrorClass (BaseError_constructor message [])"

definition MethodNotAllowedError :: "jsval \<Rightarrow> jsval" where
  "MethodNotAllowedError message =
     JErr MethodNotAllowedErrorClass (MethodNotAllowedError_constructor message [])"

definition BadRequestError :: "jsval \<Rightarrow> jsval \<Rightarrow> jsval" where
  "BadRequestError message errors =
     JErr BadRequestErrorClass (BadRequestError_constructor message errors [])"

definition ServerInternalError :: "jsval \<Rightarrow> jsval list \<Rightarrow> jsval" where
  "ServerInternalError message addition =
     JErr ServerInternalErrorClass (ServerInternalError_constructor message addition [])"

text \<open>
  The \<^verbatim>\<open>TypeError\<close> of the runtime: a property read on \<^verbatim>\<open>null\<close> or \<^verbatim>\<open>undefined\<close>, a call
  of something that is not a function. Its message depends on the engine and is left out.
\<close>

definition TypeError :: jsval where
  "TypeError = JErr TypeErrorClass []"

section \<open>Method guards\<close>

text \<open>
  \<^verbatim>\<open>req.method !== 'GET'\<close> compares with a string literal without conversion: the two are
  equal only when \<^verbatim>\<open>req.method\<close> is that very string. (\<open>All_guard\<close> is the source's
  \<^verbatim>\<open>All\<close>, a name that HOL uses for its quantifier.)
\<close>

definition All_guard :: "handler \<Rightarrow> handler" where
  "All_guard handler req res w = call_handler handler req res w"

definition Get :: "handler \<Rightarrow> handler" where
  "Get handler req res w =
     (if field (store w req) ''method'' \<noteq> JStr ''GET''
      then (Thrown (MethodNotAllowedError JUndefined), w)
      else call_handler handler req res w)"

definition Post :: "handler \<Rightarrow> handler" where
  "Post handler req res w =
     (if field (store w req) ''method'' \<noteq> JStr ''POST''
      then (Thrown (MethodNotAllowedError JUndefined), w)
      else call_handler handler req res w)"

definition Delete :: "handler \<Rightarrow> handler" where
  "Delete handler req res w =
     (if field (store w req) ''method'' \<noteq> JStr ''DELETE''
      then (Thrown (MethodNotAllowedError JUndefined), w)
      else call_handler handler req res w)"

definition Head :: "handler \<Rightarrow> handler" where
  "Head handler req res w =
     (if field (store w req) ''method'' \<noteq> JStr ''HEAD''
      then (Thrown (MethodNotAllowedError JUndefined), w)
      else call_handler handler req res w)"

definition Options :: "handler \<Rightarrow> handler" where
  "Options handler req res w =
     (if field (store w req) ''method'' \<noteq> JStr ''OPTIONS''
      then (Thrown (MethodNotAllowedError JUndefined), w)
      else call_handler handler req res w)"

definition Put :: "handler \<Rightarrow> handler" where
  "Put handler req res w =
     (if field (store w req) ''method'' \<noteq> JStr ''PUT''
      then (Thrown (MethodNotAllowedError JUndefined), w)
      else call_handler handler req res w)"

definition Patch :: "handler \<Rightarrow> handler" where
  "Patch handler req res w =
     (if field (store w req) ''method'' \<noteq> JStr ''PATCH''
      then (Thrown (MethodNotAllowedError JUndefined), w)
      else call_handler handler req res w)"

text \<open>The seven verb guards as one family, to speak about all of them at once.\<close>

datatype verb = GET | POST | DELETE | HEAD | OPTIONS | PUT | PATCH

fun verb_name :: "verb \<Rightarrow> string" where
  "verb_name GET = ''GET''"
| "verb_name POST = ''POST''"
| "verb_name DELETE = ''DELETE''"
| "verb_name HEAD = ''HEAD''"
| "verb_name OPTIONS = ''OPTIONS''"
| "verb_name PUT = ''PUT''"
| "verb_name PATCH = ''PATCH''"

fun guard :: "verb \<Rightarrow> handler \<Rightarrow> handler" where
  "guard GET = Get"
| "guard POST = Post"
| "guard DELETE = Delete"
| "guard HEAD = Head"
| "guard OPTIONS = Options"
| "guard PUT = Put"
| "guard PATCH = Patch"

section \<open>The handler wrapper and the class-level error handler\<close>

text \<open>
  The response's methods belong to the framework. \<^verbatim>\<open>res.status(code)\<close> stores the code
  and is entered in the log. \<^verbatim>\<open>res.json(body)\<close> is entered in the log, whether it returns
  or throws; it throws what the framework's serializer throws on a body that it refuses,
  and otherwise returns nothing, as the framework declares.
\<close>

definition res_status :: "addr \<Rightarrow> jsval \<Rightarrow> world \<Rightarrow> world" where
  "res_status res code w = record_call (ResStatus res code) w"

definition res_json :: "addr \<Rightarrow> jsval \<Rightarrow> world \<Rightarrow> outcome \<times> world" where
  "res_json res body w =
     (case json_refuses w (store w) body of
        None \<Rightarrow> (Returned JUndefined, record_call (ResJson res body) w)
      | Some e \<Rightarrow> (Thrown e, record_call (ResJson res body) w))"

text \<open>
  \<^verbatim>\<open>error.statusCode\<close>, where \<^verbatim>\<open>error\<close> is whatever was thrown: a \<^verbatim>\<open>TypeError\<close> on
  \<^verbatim>\<open>null\<close> and \<^verbatim>\<open>undefined\<close>, the property of an object, and \<^verbatim>\<open>undefined\<close> on the other
  primitives and on arrays, which have no such property.
\<close>

fun statusCode_of :: "world \<Rightarrow> jsval \<Rightarrow> jsval + jsval" where
  "statusCode_of w JUndefined = Inl TypeError"
| "statusCode_of w JNull = Inl TypeError"
| "statusCode_of w (JRef a) = Inr (field (store w a) ''statusCode'')"
| "statusCode_of w (JErr c ps) = Inr (field ps ''statusCode'')"
| "statusCode_of w (JObj ps) = Inr (field ps ''statusCode'')"
| "statusCode_of w v = Inr JUndefined"

text \<open>The call \<^verbatim>\<open>handler(error, req, res)\<close> of the controller's own error method.\<close>

definition call_errorHandler :: "errfn \<Rightarrow> errfn" where
  "call_errorHandler handler error req res w =
     handler error req res (record_call (CallErrorHandler error req res) w)"

text \<open>
  \<^verbatim>\<open>ErrorHandler()\<close> stores a closure in \<^verbatim>\<open>t.constructor.errorHandler\<close>;
  \<open>ErrorHandler handler\<close> is that closure, for the decorated method \<open>handler\<close>.
\<close>

definition ErrorHandler :: "errfn \<Rightarrow> errfn" where
  "ErrorHandler handler error req res w =
     (case statusCode_of w error of
        Inl te \<Rightarrow> (Thrown te, w)
      | Inr sc \<Rightarrow>
          (case call_errorHandler handler error req res
                  (res_status res (if truthy sc then sc else JNum 500) w) of
             (Returned response, w') \<Rightarrow> res_json res response w'
           | (Thrown e, w') \<Rightarrow> (Thrown e, w')
           | (Hang, w') \<Rightarrow> (Hang, w')))"

text \<open>
  \<^verbatim>\<open>Request()\<close> (exported to users as \<^verbatim>\<open>Req\<close>). The second argument is what
  \<^verbatim>\<open>t.constructor.errorHandler\<close> holds when the wrapped method is called: \<open>None\<close> when no
  \<^verbatim>\<open>ErrorHandler\<close> decorator has run on the class, and calling it is then a
  \<^verbatim>\<open>TypeError\<close>, thrown from inside the \<^verbatim>\<open>catch\<close> block. \<open>Request_catch\<close> is that block:
  \<^verbatim>\<open>return await t.constructor.errorHandler(e, res, res)\<close>. The \<^verbatim>\<open>try\<close> block holds the call
  of the handler and the call of \<^verbatim>\<open>res.json\<close>, so what either of them throws is caught.
\<close>

definition Request_catch :: "errfn option \<Rightarrow> jsval \<Rightarrow> addr \<Rightarrow> world \<Rightarrow> outcome \<times> world" where
  "Request_catch errorHandler e res w =
     (case errorHandler of
        None \<Rightarrow> (Thrown TypeError, w)
      | Some f \<Rightarrow> f e res res w)"

definition Request :: "handler \<Rightarrow> errfn option \<Rightarrow> handler" where
  "Request handler errorHandler req res w =
     (case call_handler handler req res w of
        (Returned response, w') \<Rightarrow>
          (case res_json res response w' of
             (Returned u, w'') \<Rightarrow> (Returned u, w'')
           | (Thrown e, w'') \<Rightarrow> Request_catch errorHandler e res w''
           | (Hang, w'') \<Rightarrow> (Hang, w''))
      | (Thrown e, w') \<Rightarrow> Request_catch errorHandler e res w'
      | (Hang, w') \<Rightarrow> (Hang, w'))"

section \<open>Middleware\<close>

definition call_middleware :: "handler \<Rightarrow> handler" where
  "call_middleware middleware req res w =
     middleware req res (record_call (CallMiddleware req res) w)"

definition Middleware :: "handler \<Rightarrow> handler \<Rightarrow> handler" where
  "Middleware middleware handler req res w =
     (case call_middleware middleware req res w of
        (Returned u, w') \<Rightarrow> call_handler handler req res w'
      | (Thrown e, w') \<Rightarrow> (Thrown e, w')
      | (Hang, w') \<Rightarrow> (Hang, w'))"

text \<open>
  \<^verbatim>\<open>await new Promise(resolve => middleware(req, res, resolve))\<close>. The promise settles once:
  it resolves with the value of the first call of \<^verbatim>\<open>next\<close>, it rejects when the callback
  throws before any such call, and it stays pending otherwise (a callback that never calls
  \<^verbatim>\<open>next\<close>, also an asynchronous one whose own promise rejects). A continuation-style
  callback is therefore described by which of the three it does, and the world it leaves.
\<close>

datatype next_outcome = NextCalled jsval | ThrewFirst jsval | NeverCalled

type_synonym express_middleware = "addr \<Rightarrow> addr \<Rightarrow> world \<Rightarrow> next_outcome \<times> world"

definition call_express_middleware :: "express_middleware \<Rightarrow> express_middleware" where
  "call_express_middleware middleware req res w =
     middleware req res (record_call (CallExpressMiddleware req res) w)"

definition ExpressMiddleware :: "express_middleware \<Rightarrow> handler \<Rightarrow> handler" where
  "ExpressMiddleware middleware handler req res w =
     (case call_express_middleware middleware req res w of
        (NextCalled response, w') \<Rightarrow>
          (if instanceof_Error response then (Thrown response, w')
           else call_handler handler req res w')
      | (ThrewFirst e, w') \<Rightarrow> (Thrown e, w')
      | (NeverCalled, w') \<Rightarrow> (Hang, w'))"

section \<open>Schema validators\<close>

text \<open>
  The validator engine \<^verbatim>\<open>customAjv\<close> comes from a library outside this repository, so it
  is a parameter:
  \<^item> \<open>self\<close>, the address of the engine object, whose \<^verbatim>\<open>errors\<close> property the decorators
    read;
  \<^item> \<open>compiled schema\<close>, the address of the function object that
    \<^verbatim>\<open>customAjv.compile(schema)\<close> returns; the library's compiled function leaves the list of
    the errors it has collected in its own \<^verbatim>\<open>errors\<close> property;
  \<^item> \<open>compile schema data\<close>, the effect and result of \<^verbatim>\<open>customAjv.compile(schema)(data)\<close>,
    compilation and validation taken as one step.
  The exported default engine \<^verbatim>\<open>ajv\<close>, built by that library with the options
  \<^verbatim>\<open>allErrors\<close>, \<^verbatim>\<open>nullable\<close>, \<^verbatim>\<open>removeAdditional\<close>, \<^verbatim>\<open>useDefaults\<close> and \<^verbatim>\<open>coerceTypes\<close>, is
  one value of the parameter. An engine may write to the store: to the \<^verbatim>\<open>errors\<close> of the
  compiled function or of the engine, and to the data it validates (defaults, coercion,
  removal of properties).
\<close>

record engine =
  self :: addr
  compiled :: "jsval \<Rightarrow> addr"
  compile :: "jsval \<Rightarrow> jsval \<Rightarrow> world \<Rightarrow> outcome \<times> world"

definition call_validate :: "engine \<Rightarrow> jsval \<Rightarrow> jsval \<Rightarrow> world \<Rightarrow> outcome \<times> world" where
  "call_validate customAjv schema data w =
     compile customAjv schema data (record_call (CallValidate schema data) w)"

text \<open>\<^verbatim>\<open>customAjv.errors\<close>, the property that the decorators read.\<close>

definition engine_errors :: "engine \<Rightarrow> world \<Rightarrow> jsval" where
  "engine_errors customAjv w = field (store w (self customAjv)) ''errors''"

text \<open>
  The error list that the validation has collected: the \<^verbatim>\<open>errors\<close> property of the
  compiled function. No decorator reads it; it is there to compare with what they read.
\<close>

definition collected_errors :: "engine \<Rightarrow> jsval \<Rightarrow> world \<Rightarrow> jsval" where
  "collected_errors customAjv schema w = field (store w (compiled customAjv schema)) ''errors''"

definition QuerySchema :: "jsval \<Rightarrow> engine \<Rightarrow> handler \<Rightarrow> handler" where
  "QuerySchema schema customAjv handler req res w =
     (case call_validate customAjv schema (field (store w req) ''query'') w of
        (Returned validate, w') \<Rightarrow>
          (if \<not> truthy validate
           then (Thrown (BadRequestError (JStr ''Bad Request'') (engine_errors customAjv w')), w')
           else call_handler handler req res w')
      | (Thrown e, w') \<Rightarrow> (Thrown e, w')
      | (Hang, w') \<Rightarrow> (Hang, w'))"

definition BodySchema :: "jsval \<Rightarrow> engine \<Rightarrow> handler \<Rightarrow> handler" where
  "BodySchema schema customAjv handler req res w =
     (case call_validate customAjv schema (field (store w req) ''body'') w of
        (Returned validate, w') \<Rightarrow>
          (if \<not> truthy validate
           then (Thrown (BadRequestError (JStr ''Bad Request'') (engine_errors customAjv w')), w')
           else call_handler handler req res w')
      | (Thrown e, w') \<Rightarrow> (Thrown e, w')
      | (Hang, w') \<Rightarrow> (Hang, w'))"

definition ResponseSchema :: "jsval \<Rightarrow> engine \<Rightarrow> handler \<Rightarrow> handler" where
  "ResponseSchema schema customAjv handler req res w =
     (case call_handler handler req res w of
        (Returned response, w') \<Rightarrow>
          (case call_validate customAjv schema response w' of
             (Returned validate, w'') \<Rightarrow>
               (if \<not> truthy validate
                then (Thrown (ServerInternalError (JStr ''Server Internal Error'')
                                [engine_errors customAjv w'']), w'')
                else (Returned response, w''))
           | (Thrown e, w'') \<Rightarrow> (Thrown e, w'')
           | (Hang, w'') \<Rightarrow> (Hang, w''))
      | (Thrown e, w') \<Rightarrow> (Thrown e, w')
      | (Hang, w') \<Rightarrow> (Hang, w'))"

section \<open>Sample inputs\<close>

text \<open>
  A serializer that refuses, with a \<^verbatim>\<open>TypeError\<close>, an object that refers to itself through
  its property \<^verbatim>\<open>self\<close>, and accepts everything else.
\<close>

definition refuses_cycle :: "(addr \<Rightarrow> props) \<Rightarrow> jsval \<Rightarrow> jsval option" where
  "refuses_cycle s body =
     (case body of
        JRef a \<Rightarrow> (if field (s a) ''self'' = JRef a then Some TypeError else None)
      | _ \<Rightarrow> None)"

text \<open>
  One exchange in the style of the repository's sample controller: the request is the
  object at address 1, the response the object at address 2; the query and the body of the
  request are the objects at 3 and 4. The validator engine is the object at address 9; its
  \<^verbatim>\<open>errors\<close> property holds no list, as on an engine whose own \<^verbatim>\<open>validate\<close> method has not
  been called.
\<close>

definition incoming :: "string \<Rightarrow> world" where
  "incoming m =
     \<lparr>store = (\<lambda>a. [])
        (1 := [(''method'', JStr m), (''query'', JRef 3), (''body'', JRef 4)],
         3 := [(''q'', JStr ''5'')],
         4 := [(''some'', JNum 42)],
         9 := [(''errors'', JNull)]),
      trace = [],
      json_refuses = refuses_cycle\<rparr>"

text \<open>A handler that creates its answer \<^verbatim>\<open>{some: 'answer'}\<close> at address 5 and returns it.\<close>

definition answer_handler :: handler where
  "answer_handler req res w =
     (Returned (JRef 5), w\<lparr>store := (store w)(5 := [(''some'', JStr ''answer'')])\<rparr>)"

definition custom_error :: jsval where
  "custom_error = JErr ErrorClass [(''message'', JStr ''my custom error'')]"

text \<open>A handler (or a plain middleware) that throws \<^verbatim>\<open>new Error('my custom error')\<close>.\<close>

definition failing_handler :: handler where
  "failing_handler req res w = (Thrown custom_error, w)"

text \<open>A handler that throws \<^verbatim>\<open>null\<close>, and one that returns an object referring to itself.\<close>

definition null_thrower :: handler where
  "null_thrower req res w = (Thrown JNull, w)"

definition cyclic_handler :: handler where
  "cyclic_handler req res w =
     (Returned (JRef 6), w\<lparr>store := (store w)(6 := [(''self'', JRef 6)])\<rparr>)"

definition quiet_middleware :: handler where
  "quiet_middleware req res w = (Returned JUndefined, w)"

text \<open>A continuation-style middleware that calls \<^verbatim>\<open>next(v)\<close> and does nothing else.\<close>

definition proceed_with :: "jsval \<Rightarrow> express_middleware" where
  "proceed_with v req res w = (NextCalled v, w)"

text \<open>Two error methods of a controller: one answers with a fixed body, one with what it
  was given as request and as response.\<close>

definition apology :: jsval where
  "apology = JObj [(''message'', JStr ''its a error'')]"

definition apology_handler :: errfn where
  "apology_handler error req res w = (Returned apology, w)"

definition echo_errorHandler :: errfn where
  "echo_errorHandler error req res w =
     (Returned (JObj [(''request'', JRef req), (''response'', JRef res)]), w)"

text \<open>
  Two validator engines that behave as the library's engine does on the inputs used below.
  Both are the object at address 9, and their compiled function is the object at address
  10; neither writes to the engine's own \<^verbatim>\<open>errors\<close>. The first rejects its data and leaves
  a one-entry error list in the \<^verbatim>\<open>errors\<close> of the compiled function. The second accepts its
  data after setting the property \<^verbatim>\<open>ok\<close> of the validated object to \<^verbatim>\<open>true\<close> in place, as an
  engine that applies the defaults of a schema does, and leaves \<^verbatim>\<open>null\<close> in the \<^verbatim>\<open>errors\<close> of
  the compiled function.
\<close>

definition required_error :: jsval where
  "required_error = JObj [(''keyword'', JStr ''required'')]"

definition ok_schema :: jsval where
  "ok_schema = JObj [(''type'', JStr ''object''), (''required'', JArr [JStr ''ok''])]"

definition default_schema :: jsval where
  "default_schema =
     JObj [(''type'', JStr ''object''),
           (''properties'', JObj [(''ok'', JObj [(''default'', JBool True)])])]"

definition rejecting_engine :: engine where
  "rejecting_engine =
     \<lparr>self = 9,
      compiled = (\<lambda>schema. 10),
      compile = (\<lambda>schema data w.
        (Returned (JBool False),
         w\<lparr>store := (store w)(10 := [(''errors'', JArr [required_error])])\<rparr>))\<rparr>"

definition defaults_engine :: engine where
  "defaults_engine =
     \<lparr>self = 9,
      compiled = (\<lambda>schema. 10),
      compile = (\<lambda>schema data w.
        (case data of
           JRef a \<Rightarrow>
             (Returned (JBool True),
              w\<lparr>store := (store w)
                   (a := AList.update ''ok'' (JBool True) (store w a),
                    10 := [(''errors'', JNull)])\<rparr>)
         | _ \<Rightarrow>
             (Returned (JBool True),
              w\<lparr>store := (store w)(10 := [(''errors'', JNull)])\<rparr>)))\<rparr>"

section \<open>Properties of the error classes\<close>

lemma field_Nil: "field [] k = JUndefined"
  by (simp add: field_def)

lemma field_Cons: "field ((k, v) # ps) k' = (if k' = k then v else field ps k')"
  by (simp add: field_def)

lemma field_update: "field (AList.update k v ps) k' = (if k' = k then v else field ps k')"
  by (simp add: field_def update_conv')

lemma MethodNotAllowedError_fields:
  "field (err_props (MethodNotAllowedError m)) ''message'' =
     default_param m (JStr ''Method not allowed'')"
  "field (err_props (MethodNotAllowedError m)) ''statusCode'' = JNum 405"
  "class_of (MethodNotAllowedError m) = Some MethodNotAllowedErrorClass"
  by (simp_all add: MethodNotAllowedError_def MethodNotAllowedError_constructor_def
        BaseError_constructor_def Let_def field_update)

lemma statusCode_of_error:
  "class_of e = Some c \<Longrightarrow> statusCode_of w e = Inr (field (err_props e) ''statusCode'')"
  by (cases e) simp_all

lemma BaseError_fields:
  "field (err_props (BaseError m)) ''message'' = m"
  "field (err_props (BaseError m)) ''statusCode'' = JNum 500"
  "class_of (BaseError m) = Some BaseErrorClass"
  by (simp_all add: BaseError_def BaseError_constructor_def Let_def field_update)

lemma BadRequestError_fields:
  "field (err_props (BadRequestError m errs)) ''message'' = default_param m (JStr ''Bad Request'')"
  "field (err_props (BadRequestError m errs)) ''statusCode'' = JNum 400"
  "field (err_props (BadRequestError m errs)) ''errors'' = errs"
  "class_of (BadRequestError m errs) = Some BadRequestErrorClass"
  by (simp_all add: BadRequestError_def BadRequestError_constructor_def
        BaseError_constructor_def Let_def field_update)

lemma ServerInternalError_fields:
  "field (err_props (ServerInternalError m rest)) ''message'' =
     default_param m (JStr ''Server Internal Error'')"
  "field (err_props (ServerInternalError m rest)) ''statusCode'' = JNum 500"
  "field (err_props (ServerInternalError m rest)) ''addition'' = JArr rest"
  "class_of (ServerInternalError m rest) = Some ServerInternalErrorClass"
  by (simp_all add: ServerInternalError_def ServerInternalError_constructor_def
        BaseError_constructor_def Let_def field_update)

section \<open>Properties of the method guards\<close>

lemma guard_cases:
  "guard V handler req res w =
     (if field (store w req) ''method'' \<noteq> JStr (verb_name V)
      then (Thrown (MethodNotAllowedError JUndefined), w)
      else call_handler handler req res w)"
  by (cases V) (simp_all add: Get_def Post_def Delete_def Head_def Options_def Put_def Patch_def)

text \<open>
  C2. Whatever the verb guard and the wrapped handler, a request whose method is not
  exactly the guard's verb is rejected: the call throws \<^verbatim>\<open>new MethodNotAllowedError()\<close>,
  whose status code is 405, and leaves the world as it found it. The result does not depend
  on the handler and no call is logged: the handler has not run.
\<close>

theorem guard_rejects_other_methods:
  "field (store w req) ''method'' \<noteq> JStr (verb_name V) \<Longrightarrow>
     guard V handler req res w = (Thrown (MethodNotAllowedError JUndefined), w)
     \<and> class_of (MethodNotAllowedError JUndefined) = Some MethodNotAllowedErrorClass
     \<and> statusCode_of w (MethodNotAllowedError JUndefined) = Inr (JNum 405)"
  by (simp add: guard_cases MethodNotAllowedError_fields
        statusCode_of_error [OF MethodNotAllowedError_fields(3)])

text \<open>The method \<^verbatim>\<open>'get'\<close> does not pass the \<^verbatim>\<open>Get\<close> guard: the comparison is case-sensitive.\<close>

theorem guard_rejects_other_methods_witness:
  "field (store (incoming ''get'') 1) ''method'' \<noteq> JStr (verb_name GET)
   \<and> fst (guard GET answer_handler 1 2 (incoming ''get'')) =
       Thrown (MethodNotAllowedError JUndefined)
   \<and> snd (guard GET answer_handler 1 2 (incoming ''get'')) = incoming ''get''
   \<and> trace (snd (guard GET answer_handler 1 2 (incoming ''get''))) = []
   \<and> store (snd (guard GET answer_handler 1 2 (incoming ''get''))) 5 = []
   \<and> statusCode_of (incoming ''get'') (MethodNotAllowedError JUndefined) = Inr (JNum 405)"
  using guard_rejects_other_methods [of "incoming ''get''" 1 GET answer_handler 2]
  by (simp add: incoming_def field_def)

text \<open>
  C3. A verb guard whose verb is the request's method calls the inner handler with the same
  request and response and returns what the handler returns (its outcome and the world it
  leaves); \<open>All_guard\<close> does so for every request, without looking at the method.
\<close>

theorem guard_delegates_on_match:
  "(field (store w req) ''method'' = JStr (verb_name V) \<longrightarrow>
      guard V handler req res w = handler req res (record_call (CallHandler req res) w))
   \<and> All_guard handler req res w = handler req res (record_call (CallHandler req res) w)"
  by (simp add: guard_cases All_guard_def call_handler_def)

text \<open>A \<^verbatim>\<open>POST\<close> through the \<^verbatim>\<open>Post\<close> guard, and any method through \<open>All_guard\<close>.\<close>

theorem guard_delegates_on_match_witness:
  "field (store (incoming ''POST'') 1) ''method'' = JStr (verb_name POST)
   \<and> guard POST answer_handler 1 2 (incoming ''POST'') =
       answer_handler 1 2 (record_call (CallHandler 1 2) (incoming ''POST''))
   \<and> fst (guard POST answer_handler 1 2 (incoming ''POST'')) = Returned (JRef 5)
   \<and> trace (snd (guard POST answer_handler 1 2 (incoming ''POST''))) = [CallHandler 1 2]
   \<and> fst (All_guard answer_handler 1 2 (incoming ''anything'')) = Returned (JRef 5)"
  using guard_delegates_on_match [of "incoming ''POST''" 1 POST answer_handler 2]
        guard_delegates_on_match [of "incoming ''anything''" 1 POST answer_handler 2]
  by (simp add: incoming_def field_def answer_handler_def record_call_def)

text \<open>
  C9. Constructed without a message, \<^verbatim>\<open>MethodNotAllowedError\<close>, \<^verbatim>\<open>BadRequestError\<close> and
  \<^verbatim>\<open>ServerInternalError\<close> carry the messages \<^verbatim>\<open>'Method not allowed'\<close>, \<^verbatim>\<open>'Bad Request'\<close> and
  \<^verbatim>\<open>'Server Internal Error'\<close>; \<^verbatim>\<open>BaseError\<close> substitutes nothing: its message is its
  argument, whatever that is. Every rejection by a verb guard carries the first of these
  messages.
\<close>

theorem default_messages:
  "field (err_props (MethodNotAllowedError JUndefined)) ''message'' = JStr ''Method not allowed''
   \<and> field (err_props (BadRequestError JUndefined errors)) ''message'' = JStr ''Bad Request''
   \<and> field (err_props (ServerInternalError JUndefined addition)) ''message'' =
       JStr ''Server Internal Error''
   \<and> field (err_props (BaseError message)) ''message'' = message
   \<and> (field (store w req) ''method'' \<noteq> JStr (verb_name V) \<longrightarrow>
        (\<exists>e. fst (guard V handler req res w) = Thrown e
           \<and> field (err_props e) ''message'' = JStr ''Method not allowed''))"
  by (simp add: MethodNotAllowedError_fields BadRequestError_fields ServerInternalError_fields
        BaseError_fields default_param_def guard_cases)

text \<open>\<^verbatim>\<open>new BaseError()\<close> has the message \<^verbatim>\<open>undefined\<close>; a \<^verbatim>\<open>GET\<close> at the \<^verbatim>\<open>Patch\<close> guard.\<close>

theorem default_messages_witness:
  "field (err_props (BaseError JUndefined)) ''message'' = JUndefined
   \<and> field (store (incoming ''GET'') 1) ''method'' \<noteq> JStr (verb_name PATCH)
   \<and> (\<exists>e. fst (guard PATCH answer_handler 1 2 (incoming ''GET'')) = Thrown e
           \<and> field (err_props e) ''message'' = JStr ''Method not allowed'')"
  using default_messages [of JNull "[]" JUndefined "incoming ''GET''" 1 PATCH answer_handler 2]
  by (simp add: incoming_def field_def)

section \<open>Properties of the handler wrapper\<close>

text \<open>
  C4, as the code has it. When the handler returns a value that \<^verbatim>\<open>res.json\<close> accepts, the
  wrapper sends it with \<^verbatim>\<open>res.json\<close>. When the handler throws a value whose \<^verbatim>\<open>statusCode\<close>
  can be read (any value but \<^verbatim>\<open>null\<close> and \<^verbatim>\<open>undefined\<close>) and an error handler is registered
  on the class, the wrapper first calls \<^verbatim>\<open>res.status\<close> with that status code, or with 500
  when it is absent or falsy, then runs the controller's error method in the world so
  changed, and at last, when that method returns a value that \<^verbatim>\<open>res.json\<close> accepts, sends
  it with \<^verbatim>\<open>res.json\<close>.
\<close>

theorem Request_serializes_result_or_reply:
  "(call_handler handler req res w = (Returned response, w1) \<longrightarrow>
      json_refuses w1 (store w1) response = None \<longrightarrow>
      Request handler errorHandler req res w =
        (Returned JUndefined, record_call (ResJson res response) w1))
   \<and> (call_handler handler req res w = (Thrown e, w1) \<longrightarrow>
      statusCode_of w1 e = Inr sc \<longrightarrow>
      call_errorHandler eh e res res
          (record_call (ResStatus res (if truthy sc then sc else JNum 500)) w1) =
        (Returned reply, w2) \<longrightarrow>
      json_refuses w2 (store w2) reply = None \<longrightarrow>
      Request handler (Some (ErrorHandler eh)) req res w =
        (Returned JUndefined, record_call (ResJson res reply) w2))"
  by (simp add: Request_def Request_catch_def ErrorHandler_def res_json_def res_status_def)

text \<open>
  A handler that answers; a handler that throws a plain \<^verbatim>\<open>Error\<close> (no status code, so
  500); a \<^verbatim>\<open>POST\<close> rejected by the \<^verbatim>\<open>Get\<close> guard under the wrapper (405).
\<close>

theorem Request_serializes_result_or_reply_witness:
  "call_handler answer_handler 1 2 (incoming ''GET'') =
     (Returned (JRef 5), snd (call_handler answer_handler 1 2 (incoming ''GET'')))
   \<and> json_refuses (snd (call_handler answer_handler 1 2 (incoming ''GET'')))
        (store (snd (call_handler answer_handler 1 2 (incoming ''GET'')))) (JRef 5) = None
   \<and> fst (Request answer_handler None 1 2 (incoming ''GET'')) = Returned JUndefined
   \<and> trace (snd (Request answer_handler None 1 2 (incoming ''GET''))) =
       [CallHandler 1 2, ResJson 2 (JRef 5)]
   \<and> call_handler failing_handler 1 2 (incoming ''GET'') =
       (Thrown custom_error, record_call (CallHandler 1 2) (incoming ''GET''))
   \<and> statusCode_of (record_call (CallHandler 1 2) (incoming ''GET'')) custom_error =
       Inr JUndefined
   \<and> \<not> truthy JUndefined
   \<and> json_refuses (incoming ''GET'') (store (incoming ''GET'')) apology = None
   \<and> trace (snd (Request failing_handler (Some (ErrorHandler apology_handler)) 1 2
                   (incoming ''GET''))) =
       [CallHandler 1 2, ResStatus 2 (JNum 500), CallErrorHandler custom_error 2 2,
        ResJson 2 apology]
   \<and> call_handler (Get answer_handler) 1 2 (incoming ''POST'') =
       (Thrown (MethodNotAllowedError JUndefined), record_call (CallHandler 1 2) (incoming ''POST''))
   \<and> statusCode_of (record_call (CallHandler 1 2) (incoming ''POST''))
        (MethodNotAllowedError JUndefined) = Inr (JNum 405)
   \<and> truthy (JNum 405)
   \<and> trace (snd (Request (Get answer_handler) (Some (ErrorHandler apology_handler)) 1 2
                   (incoming ''POST''))) =
       [CallHandler 1 2, ResStatus 2 (JNum 405),
        CallErrorHandler (MethodNotAllowedError JUndefined) 2 2, ResJson 2 apology]"
  using Request_serializes_result_or_reply [where handler = answer_handler and req = 1 and res = 2
          and w = "incoming ''GET''" and response = "JRef 5"
          and ?w1.0 = "snd (call_handler answer_handler 1 2 (incoming ''GET''))"
          and errorHandler = None and e = JNull and sc = JNull and eh = apology_handler
          and reply = JNull and ?w2.0 = "incoming ''GET''"]
        Request_serializes_result_or_reply [where handler = failing_handler and req = 1 and res = 2
          and w = "incoming ''GET''" and response = JNull
          and ?w1.0 = "record_call (CallHandler 1 2) (incoming ''GET'')"
          and errorHandler = None and e = custom_error and sc = JUndefined and eh = apology_handler
          and reply = apology
          and ?w2.0 = "record_call (CallErrorHandler custom_error 2 2)
             (record_call (ResStatus 2 (JNum 500)) (record_call (CallHandler 1 2) (incoming ''GET'')))"]
        Request_serializes_result_or_reply [where handler = "Get answer_handler" and req = 1 and res = 2
          and w = "incoming ''POST''" and response = JNull
          and ?w1.0 = "record_call (CallHandler 1 2) (incoming ''POST'')"
          and errorHandler = None and e = "MethodNotAllowedError JUndefined" and sc = "JNum 405"
          and eh = apology_handler and reply = apology
          and ?w2.0 = "record_call (CallErrorHandler (MethodNotAllowedError JUndefined) 2 2)
             (record_call (ResStatus 2 (JNum 405)) (record_call (CallHandler 1 2) (incoming ''POST'')))"]
  by (simp add: call_handler_def call_errorHandler_def failing_handler_def answer_handler_def
        apology_handler_def apology_def custom_error_def Get_def record_call_def incoming_def
        refuses_cycle_def
        field_Nil field_Cons statusCode_of_error [OF MethodNotAllowedError_fields(3)]
        MethodNotAllowedError_fields)

text \<open>
  C4, as the claim has it, fails in three ways. A handler that throws \<^verbatim>\<open>null\<close>: reading
  \<^verbatim>\<open>statusCode\<close> is a \<^verbatim>\<open>TypeError\<close>, the call fails with it, and neither \<^verbatim>\<open>res.status\<close> nor
  the error method nor \<^verbatim>\<open>res.json\<close> is called. A handler that throws on a class without a
  registered error handler: the same. A handler that returns an object referring to itself:
  \<^verbatim>\<open>res.json\<close> throws inside the \<^verbatim>\<open>try\<close> block, and what is sent is the error method's
  answer, with status 500, not the handler's value.
\<close>

theorem Request_without_reply_counterexample:
  "Request null_thrower (Some (ErrorHandler apology_handler)) 1 2 (incoming ''GET'') =
     (Thrown TypeError, record_call (CallHandler 1 2) (incoming ''GET''))
   \<and> Request failing_handler None 1 2 (incoming ''GET'') =
     (Thrown TypeError, record_call (CallHandler 1 2) (incoming ''GET''))
   \<and> trace (record_call (CallHandler 1 2) (incoming ''GET'')) = [CallHandler 1 2]
   \<and> fst (call_handler cyclic_handler 1 2 (incoming ''GET'')) = Returned (JRef 6)
   \<and> fst (Request cyclic_handler (Some (ErrorHandler apology_handler)) 1 2 (incoming ''GET'')) =
       Returned JUndefined
   \<and> trace (snd (Request cyclic_handler (Some (ErrorHandler apology_handler)) 1 2
                   (incoming ''GET''))) =
       [CallHandler 1 2, ResJson 2 (JRef 6), ResStatus 2 (JNum 500),
        CallErrorHandler TypeError 2 2, ResJson 2 apology]"
  by (simp add: Request_def Request_catch_def ErrorHandler_def call_handler_def
        call_errorHandler_def res_status_def res_json_def refuses_cycle_def null_thrower_def
        failing_handler_def cyclic_handler_def apology_handler_def apology_def TypeError_def
        record_call_def incoming_def field_Nil field_Cons)

text \<open>
  C1. The claim is that the error handler receives the error, the request and the response.
  The wrapper calls it once, but with the response in the place of the request: for the
  request at address 1 and the response at address 2, a handler that throws makes the
  controller's error method run on \<open>(custom_error, 2, 2)\<close>, and an error method that answers
  with its two last arguments answers with the response twice.
\<close>

theorem Request_passes_response_as_request:
  "(1::addr) \<noteq> 2
   \<and> fst (Request failing_handler (Some (ErrorHandler echo_errorHandler)) 1 2 (incoming ''GET'')) =
       Returned JUndefined
   \<and> trace (snd (Request failing_handler (Some (ErrorHandler echo_errorHandler)) 1 2
                   (incoming ''GET''))) =
       [CallHandler 1 2, ResStatus 2 (JNum 500), CallErrorHandler custom_error 2 2,
        ResJson 2 (JObj [(''request'', JRef 2), (''response'', JRef 2)])]"
  by (simp add: Request_def Request_catch_def ErrorHandler_def call_handler_def
        call_errorHandler_def res_status_def res_json_def refuses_cycle_def failing_handler_def
        echo_errorHandler_def custom_error_def record_call_def incoming_def field_def)

section \<open>Properties of the middleware wrappers\<close>

text \<open>
  C5. The plain middleware wrapper runs its callback first. When the callback throws, the
  wrapper throws the same value in the world the callback left, whatever the inner handler
  is: the handler has not run. When the callback returns, the inner handler runs next, on
  the same request and response, and its result is the wrapper's.
\<close>

theorem Middleware_runs_callback_first:
  "(call_middleware middleware req res w = (Thrown e, w1) \<longrightarrow>
      Middleware middleware handler req res w = (Thrown e, w1))
   \<and> (call_middleware middleware req res w = (Returned u, w1) \<longrightarrow>
      Middleware middleware handler req res w =
        handler req res (record_call (CallHandler req res) w1))"
  by (simp add: Middleware_def call_handler_def)

text \<open>A callback that throws \<^verbatim>\<open>new Error('my custom error')\<close>, and one that returns.\<close>

theorem Middleware_runs_callback_first_witness:
  "call_middleware failing_handler 1 2 (incoming ''GET'') =
     (Thrown custom_error, record_call (CallMiddleware 1 2) (incoming ''GET''))
   \<and> Middleware failing_handler answer_handler 1 2 (incoming ''GET'') =
     (Thrown custom_error, record_call (CallMiddleware 1 2) (incoming ''GET''))
   \<and> trace (snd (Middleware failing_handler answer_handler 1 2 (incoming ''GET''))) =
       [CallMiddleware 1 2]
   \<and> call_middleware quiet_middleware 1 2 (incoming ''GET'') =
     (Returned JUndefined, record_call (CallMiddleware 1 2) (incoming ''GET''))
   \<and> fst (Middleware quiet_middleware answer_handler 1 2 (incoming ''GET'')) = Returned (JRef 5)
   \<and> trace (snd (Middleware quiet_middleware answer_handler 1 2 (incoming ''GET''))) =
       [CallMiddleware 1 2, CallHandler 1 2]"
  using Middleware_runs_callback_first [of failing_handler 1 2 "incoming ''GET''" custom_error
          "record_call (CallMiddleware 1 2) (incoming ''GET'')" answer_handler]
        Middleware_runs_callback_first [of quiet_middleware 1 2 "incoming ''GET''" _
          "record_call (CallMiddleware 1 2) (incoming ''GET'')" answer_handler JUndefined]
  by (simp add: call_middleware_def failing_handler_def quiet_middleware_def answer_handler_def
        record_call_def incoming_def)

text \<open>
  C6. When the continuation-style callback calls \<^verbatim>\<open>next\<close> with an instance of \<^verbatim>\<open>Error\<close>,
  the wrapper throws that value and the result does not depend on the inner handler, which
  has not run; when it calls \<^verbatim>\<open>next\<close> with anything else, the inner handler runs and its
  result is the wrapper's.
\<close>

theorem ExpressMiddleware_next_value:
  "(call_express_middleware middleware req res w = (NextCalled v, w1) \<longrightarrow>
      instanceof_Error v \<longrightarrow>
      ExpressMiddleware middleware handler req res w = (Thrown v, w1))
   \<and> (call_express_middleware middleware req res w = (NextCalled v, w1) \<longrightarrow>
      \<not> instanceof_Error v \<longrightarrow>
      ExpressMiddleware middleware handler req res w =
        handler req res (record_call (CallHandler req res) w1))"
  by (simp add: ExpressMiddleware_def call_handler_def)

text \<open>\<^verbatim>\<open>next(new Error('my custom error'))\<close> and \<^verbatim>\<open>next(undefined)\<close>.\<close>

theorem ExpressMiddleware_next_value_witness:
  "call_express_middleware (proceed_with custom_error) 1 2 (incoming ''GET'') =
     (NextCalled custom_error, record_call (CallExpressMiddleware 1 2) (incoming ''GET''))
   \<and> instanceof_Error custom_error
   \<and> ExpressMiddleware (proceed_with custom_error) answer_handler 1 2 (incoming ''GET'') =
     (Thrown custom_error, record_call (CallExpressMiddleware 1 2) (incoming ''GET''))
   \<and> call_express_middleware (proceed_with JUndefined) 1 2 (incoming ''GET'') =
     (NextCalled JUndefined, record_call (CallExpressMiddleware 1 2) (incoming ''GET''))
   \<and> \<not> instanceof_Error JUndefined
   \<and> fst (ExpressMiddleware (proceed_with JUndefined) answer_handler 1 2 (incoming ''GET'')) =
       Returned (JRef 5)
   \<and> trace (snd (ExpressMiddleware (proceed_with JUndefined) answer_handler 1 2
                   (incoming ''GET''))) =
       [CallExpressMiddleware 1 2, CallHandler 1 2]"
  using ExpressMiddleware_next_value [of "proceed_with custom_error" 1 2 "incoming ''GET''"
          custom_error "record_call (CallExpressMiddleware 1 2) (incoming ''GET'')" answer_handler]
        ExpressMiddleware_next_value [of "proceed_with JUndefined" 1 2 "incoming ''GET''"
          JUndefined "record_call (CallExpressMiddleware 1 2) (incoming ''GET'')" answer_handler]
  by (simp add: call_express_middleware_def proceed_with_def custom_error_def answer_handler_def
        record_call_def incoming_def)

section \<open>Properties of the schema validators\<close>

text \<open>
  C7. The claim is that a \<^verbatim>\<open>QuerySchema\<close> or \<^verbatim>\<open>BodySchema\<close> whose validation fails throws a
  \<^verbatim>\<open>BadRequestError\<close> carrying the error list that the validation collected. The wrappers
  validate first and throw a \<^verbatim>\<open>BadRequestError\<close>, but the detail they pass is
  \<^verbatim>\<open>customAjv.errors\<close>, the property of the engine, while the list is collected on the
  compiled function: with an engine that does not copy it to its own \<^verbatim>\<open>errors\<close>, the
  \<^verbatim>\<open>errors\<close> of the thrown error is \<^verbatim>\<open>null\<close> although the validation collected one entry.
\<close>

theorem request_schemas_carry_engine_errors:
  "fst (QuerySchema ok_schema rejecting_engine answer_handler 1 2 (incoming ''GET'')) =
     Thrown (BadRequestError (JStr ''Bad Request'') JNull)
   \<and> collected_errors rejecting_engine ok_schema
        (snd (QuerySchema ok_schema rejecting_engine answer_handler 1 2 (incoming ''GET''))) =
       JArr [required_error]
   \<and> fst (BodySchema ok_schema rejecting_engine answer_handler 1 2 (incoming ''POST'')) =
     Thrown (BadRequestError (JStr ''Bad Request'') JNull)
   \<and> collected_errors rejecting_engine ok_schema
        (snd (BodySchema ok_schema rejecting_engine answer_handler 1 2 (incoming ''POST''))) =
       JArr [required_error]
   \<and> field (err_props (BadRequestError (JStr ''Bad Request'') JNull)) ''errors'' = JNull
   \<and> JNull \<noteq> JArr [required_error]"
  by (simp add: QuerySchema_def BodySchema_def call_validate_def engine_errors_def
        collected_errors_def rejecting_engine_def BadRequestError_fields record_call_def
        incoming_def field_Nil field_Cons)

text \<open>
  C8, as the code has it. \<^verbatim>\<open>ResponseSchema\<close> runs the inner handler first and validates
  the value it returned. When the validation result is falsy the wrapper throws a
  \<^verbatim>\<open>ServerInternalError\<close>, of status code 500. When it is truthy the wrapper returns the very
  value the handler returned, a reference being the same reference, in the world the
  validation left: the wrapper makes no copy and writes nothing itself, and the object
  referred to is as the engine left it.
\<close>

theorem ResponseSchema_validates_result:
  "call_handler handler req res w = (Returned response, w1) \<Longrightarrow>
   call_validate customAjv schema response w1 = (Returned validate, w2) \<Longrightarrow>
     (\<not> truthy validate \<longrightarrow>
        (\<exists>e. ResponseSchema schema customAjv handler req res w = (Thrown e, w2)
           \<and> class_of e = Some ServerInternalErrorClass
           \<and> statusCode_of w2 e = Inr (JNum 500)))
     \<and> (truthy validate \<longrightarrow>
        ResponseSchema schema customAjv handler req res w = (Returned response, w2))"
  by (simp add: ResponseSchema_def ServerInternalError_fields
        statusCode_of_error [OF ServerInternalError_fields(4)])

text \<open>The handler's answer, rejected by one engine and accepted by the other.\<close>

theorem ResponseSchema_validates_result_witness:
  "call_handler answer_handler 1 2 (incoming ''GET'') =
     (Returned (JRef 5), snd (call_handler answer_handler 1 2 (incoming ''GET'')))
   \<and> call_validate rejecting_engine ok_schema (JRef 5)
        (snd (call_handler answer_handler 1 2 (incoming ''GET''))) =
     (Returned (JBool False),
      snd (call_validate rejecting_engine ok_schema (JRef 5)
             (snd (call_handler answer_handler 1 2 (incoming ''GET'')))))
   \<and> \<not> truthy (JBool False)
   \<and> (\<exists>e. fst (ResponseSchema ok_schema rejecting_engine answer_handler 1 2 (incoming ''GET'')) =
             Thrown e
          \<and> class_of e = Some ServerInternalErrorClass
          \<and> field (err_props e) ''statusCode'' = JNum 500)
   \<and> call_validate defaults_engine default_schema (JRef 5)
        (snd (call_handler answer_handler 1 2 (incoming ''GET''))) =
     (Returned (JBool True),
      snd (call_validate defaults_engine default_schema (JRef 5)
             (snd (call_handler answer_handler 1 2 (incoming ''GET'')))))
   \<and> truthy (JBool True)
   \<and> ResponseSchema default_schema defaults_engine answer_handler 1 2 (incoming ''GET'') =
     (Returned (JRef 5),
      snd (call_validate defaults_engine default_schema (JRef 5)
             (snd (call_handler answer_handler 1 2 (incoming ''GET'')))))
   \<and> trace (snd (ResponseSchema default_schema defaults_engine answer_handler 1 2
                   (incoming ''GET''))) =
       [CallHandler 1 2, CallValidate default_schema (JRef 5)]"
  using ResponseSchema_validates_result [where handler = answer_handler and req = 1 and res = 2
          and w = "incoming ''GET''" and response = "JRef 5"
          and ?w1.0 = "snd (call_handler answer_handler 1 2 (incoming ''GET''))"
          and customAjv = rejecting_engine and schema = ok_schema and validate = "JBool False"
          and ?w2.0 = "snd (call_validate rejecting_engine ok_schema (JRef 5)
             (snd (call_handler answer_handler 1 2 (incoming ''GET''))))"]
        ResponseSchema_validates_result [where handler = answer_handler and req = 1 and res = 2
          and w = "incoming ''GET''" and response = "JRef 5"
          and ?w1.0 = "snd (call_handler answer_handler 1 2 (incoming ''GET''))"
          and customAjv = defaults_engine and schema = default_schema and validate = "JBool True"
          and ?w2.0 = "snd (call_validate defaults_engine default_schema (JRef 5)
             (snd (call_handler answer_handler 1 2 (incoming ''GET''))))"]
  by (auto simp add: call_handler_def call_validate_def rejecting_engine_def defaults_engine_def
        answer_handler_def record_call_def incoming_def
        statusCode_of_error)

text \<open>
  C8, as the claim has it, fails: the result is not always the handler's object unchanged.
  The handler returns the object at address 5, \<^verbatim>\<open>{some: 'answer'}\<close>; the engine accepts it
  after setting its property \<^verbatim>\<open>ok\<close>; the wrapper returns the reference to 5, and the object
  there is now \<^verbatim>\<open>{some: 'answer', ok: true}\<close>.
\<close>

theorem ResponseSchema_result_modified_counterexample:
  "fst (call_handler answer_handler 1 2 (incoming ''GET'')) = Returned (JRef 5)
   \<and> store (snd (call_handler answer_handler 1 2 (incoming ''GET''))) 5 =
       [(''some'', JStr ''answer'')]
   \<and> fst (ResponseSchema default_schema defaults_engine answer_handler 1 2 (incoming ''GET'')) =
       Returned (JRef 5)
   \<and> store (snd (ResponseSchema default_schema defaults_engine answer_handler 1 2
                   (incoming ''GET''))) 5 =
       [(''some'', JStr ''answer''), (''ok'', JBool True)]
   \<and> store (snd (ResponseSchema default_schema defaults_engine answer_handler 1 2
                   (incoming ''GET''))) 5 \<noteq>
       store (snd (call_handler answer_handler 1 2 (incoming ''GET''))) 5"
  by (simp add: ResponseSchema_def call_handler_def call_validate_def defaults_engine_def
        answer_handler_def record_call_def incoming_def)

text \<open>
  C10. The \<^verbatim>\<open>addition\<close> of a \<^verbatim>\<open>ServerInternalError\<close> is the array of the arguments that
  follow the message, and the claim is that the error thrown by \<^verbatim>\<open>ResponseSchema\<close> has as
  \<^verbatim>\<open>addition\<close> an array of one element, the error list of the validation. The array has one
  element, but the element is \<^verbatim>\<open>customAjv.errors\<close>: with an engine that collects the list on
  the compiled function only, \<^verbatim>\<open>addition\<close> is \<^verbatim>\<open>[null]\<close> although the validation collected
  one entry.
\<close>

theorem ResponseSchema_addition_holds_engine_errors:
  "field (err_props (ServerInternalError message addition)) ''addition'' = JArr addition
   \<and> fst (ResponseSchema ok_schema rejecting_engine answer_handler 1 2 (incoming ''GET'')) =
       Thrown (ServerInternalError (JStr ''Server Internal Error'') [JNull])
   \<and> field (err_props (ServerInternalError (JStr ''Server Internal Error'') [JNull]))
        ''addition'' = JArr [JNull]
   \<and> collected_errors rejecting_engine ok_schema
        (snd (ResponseSchema ok_schema rejecting_engine answer_handler 1 2 (incoming ''GET''))) =
       JArr [required_error]
   \<and> JArr [JNull] \<noteq> JArr [JArr [required_error]]"
  by (simp add: ResponseSchema_def call_handler_def call_validate_def engine_errors_def
        collected_errors_def rejecting_engine_def answer_handler_def
        ServerInternalError_fields record_call_def incoming_def field_Nil field_Cons)

end
